theory Spec2Isabelle
  imports Complex_Main "HOL-Library.List_Lexorder"
begin

section \<open>Python strings\<close>

text \<open>
  A Python \<^verbatim>\<open>str\<close> is a sequence of Unicode code points, and every string operation of
  the sources (\<^verbatim>\<open>strip\<close>, \<^verbatim>\<open>split\<close>, \<^verbatim>\<open>rsplit\<close>, \<^verbatim>\<open>rpartition\<close>, \<^verbatim>\<open>join\<close>, comparison,
  \<^verbatim>\<open>sorted\<close>) works on code points. A string is therefore a list of natural numbers,
  one per code point; \<open>str\<close> turns an ASCII literal into such a list. The order on
  strings is the lexicographic order of the code points, as in Python.
\<close>

type_synonym pystr = "nat list"

definition str :: "string \<Rightarrow> pystr" where
  "str s = map of_char s"

abbreviation underscore :: nat where
  "underscore \<equiv> 95"

abbreviation hyphen :: nat where
  "hyphen \<equiv> 45"

text \<open>
  \<^verbatim>\<open>str.isspace\<close> for one code point: the characters \<^verbatim>\<open>str.strip()\<close> removes and the
  regular expression class \<^verbatim>\<open>\s\<close> matches (U+0009..U+000D, U+001C..U+0020, U+0085,
  U+00A0, U+1680, U+2000..U+200A, U+2028, U+2029, U+202F, U+205F, U+3000).
\<close>

definition isspace :: "nat \<Rightarrow> bool" where
  "isspace c \<longleftrightarrow>
     (9 \<le> c \<and> c \<le> 13) \<or> (28 \<le> c \<and> c \<le> 32) \<or> c = 133 \<or> c = 160 \<or> c = 5760 \<or>
     (8192 \<le> c \<and> c \<le> 8202) \<or> c = 8232 \<or> c = 8233 \<or> c = 8239 \<or> c = 8287 \<or> c = 12288"

definition py_lstrip :: "pystr \<Rightarrow> pystr" where
  "py_lstrip s = dropWhile isspace s"

definition py_rstrip :: "pystr \<Rightarrow> pystr" where
  "py_rstrip s = rev (dropWhile isspace (rev s))"

definition py_strip :: "pystr \<Rightarrow> pystr" where
  "py_strip s = py_lstrip (py_rstrip s)"

text \<open>\<^verbatim>\<open>s.split(sep)\<close> for a one-character separator: never empty, one more piece than separators.\<close>

fun py_split :: "nat \<Rightarrow> pystr \<Rightarrow> pystr list" where
  "py_split sep [] = [[]]"
| "py_split sep (c # cs) =
     (if c = sep then [] # py_split sep cs
      else (case py_split sep cs of
              [] \<Rightarrow> [[c]]
            | p # ps \<Rightarrow> (c # p) # ps))"

text \<open>\<^verbatim>\<open>s.split(sep, maxsplit)\<close>: at most \<open>maxsplit\<close> cuts, taken from the left.\<close>

fun py_split_max :: "nat \<Rightarrow> nat \<Rightarrow> pystr \<Rightarrow> pystr list" where
  "py_split_max sep 0 s = [s]"
| "py_split_max sep (Suc n) s =
     (if sep \<in> set s
      then takeWhile (\<lambda>c. c \<noteq> sep) s # py_split_max sep n (tl (dropWhile (\<lambda>c. c \<noteq> sep) s))
      else [s])"

text \<open>\<^verbatim>\<open>s.rsplit(sep, 1)\<close>: one cut at the last separator, or the string alone.\<close>

definition py_rsplit1 :: "nat \<Rightarrow> pystr \<Rightarrow> pystr list" where
  "py_rsplit1 sep s =
     (if sep \<in> set s
      then [rev (tl (dropWhile (\<lambda>c. c \<noteq> sep) (rev s))), rev (takeWhile (\<lambda>c. c \<noteq> sep) (rev s))]
      else [s])"

text \<open>\<^verbatim>\<open>s.rpartition(sep)\<close>: (before, sep, after) at the last separator, else ("", "", s).\<close>

definition py_rpartition :: "nat \<Rightarrow> pystr \<Rightarrow> pystr \<times> pystr \<times> pystr" where
  "py_rpartition sep s =
     (if sep \<in> set s
      then (rev (tl (dropWhile (\<lambda>c. c \<noteq> sep) (rev s))), [sep],
            rev (takeWhile (\<lambda>c. c \<noteq> sep) (rev s)))
      else ([], [], s))"

text \<open>\<^verbatim>\<open>sep.join(parts)\<close>.\<close>

fun py_join :: "pystr \<Rightarrow> pystr list \<Rightarrow> pystr" where
  "py_join sep [] = []"
| "py_join sep [p] = p"
| "py_join sep (p # q # ps) = p @ sep @ py_join sep (q # ps)"

text \<open>
  \<^verbatim>\<open>str.lower()\<close> depends on the Unicode character database. The functions that call it
  (\<^verbatim>\<open>clean_tags\<close>, \<^verbatim>\<open>normalize_product\<close>) take it as a parameter \<open>lw\<close>.
  \<open>ascii_lower\<close> is \<^verbatim>\<open>str.lower()\<close> on strings whose cased letters are all among A..Z
  and a..z; it runs the examples, which are ASCII strings.
\<close>

definition ascii_lower_cp :: "nat \<Rightarrow> nat" where
  "ascii_lower_cp c = (if 65 \<le> c \<and> c \<le> 90 then c + 32 else c)"

definition ascii_lower :: "pystr \<Rightarrow> pystr" where
  "ascii_lower s = map ascii_lower_cp s"

subsection \<open>Number conversion\<close>

text \<open>
  The folder-name parsers call the builtin \<^verbatim>\<open>float\<close> and look only at whether it raises
  \<^verbatim>\<open>ValueError\<close>. They are modelled with the conversion as a parameter \<open>pf\<close> whose result
  \<open>None\<close> stands for the \<^verbatim>\<open>ValueError\<close>, so the theorems about them hold for the builtin
  itself. \<open>py_float\<close> is the conversion on plain decimal literals (optional sign,
  digits, optional fraction), with the exact decimal value as a rational; it runs the
  examples, whose price segments are such literals or no numbers at all. Like
  \<^verbatim>\<open>float\<close>, it ignores surrounding white space except the separators U+001C..U+001F,
  which \<^verbatim>\<open>str.strip()\<close> removes and \<^verbatim>\<open>float\<close> rejects. The other strings \<^verbatim>\<open>float\<close>
  accepts (exponents, \<^verbatim>\<open>inf\<close>, \<^verbatim>\<open>nan\<close>, underscores between digits, non-ASCII digits) are
  outside it.
\<close>

definition is_float_space :: "nat \<Rightarrow> bool" where
  "is_float_space c \<longleftrightarrow> isspace c \<and> \<not> (28 \<le> c \<and> c \<le> 31)"

definition float_strip :: "pystr \<Rightarrow> pystr" where
  "float_strip s = dropWhile is_float_space (rev (dropWhile is_float_space (rev s)))"

definition is_digit :: "nat \<Rightarrow> bool" where
  "is_digit c \<longleftrightarrow> 48 \<le> c \<and> c \<le> 57"

definition digits_value :: "pystr \<Rightarrow> nat" where
  "digits_value ds = foldl (\<lambda>a c. 10 * a + (c - 48)) 0 ds"

definition py_float :: "pystr \<Rightarrow> rat option" where
  "py_float s =
     (let t = float_strip s;
          neg = (t \<noteq> [] \<and> hd t = 45);
          body = (if t \<noteq> [] \<and> (hd t = 45 \<or> hd t = 43) then tl t else t);
          ip = takeWhile is_digit body;
          rest = dropWhile is_digit body;
          fp = tl rest;
          sign = (if neg then - 1 else 1)
      in if rest = [] then
           (if ip = [] then None else Some (sign * of_nat (digits_value ip)))
         else if hd rest = 46 \<and> list_all is_digit fp \<and> (ip \<noteq> [] \<or> fp \<noteq> []) then
           Some (sign * (of_nat (digits_value ip) + of_nat (digits_value fp) / 10 ^ length fp))
         else None)"

section \<open>Folder-name parsers\<close>

datatype py_error = IndexError | ValueError | OverflowError | OSError

subsection \<open>core/folder\_utils.py\<close>

text \<open>
  \<^verbatim>\<open>parse_folder_name(name)\<close> of \<^verbatim>\<open>core/folder_utils.py\<close>. The result is the tuple
  (product\_type, materials\_str, series, price), or the exception that leaves the
  function: unpacking the \<^verbatim>\<open>rsplit\<close> result raises \<^verbatim>\<open>ValueError\<close> unless it has two
  elements, and \<^verbatim>\<open>parts[0]\<close> in the last branch raises \<^verbatim>\<open>IndexError\<close> on an empty list.
\<close>

text \<open>The second half of the function: the left part is cut at the hyphens.\<close>

definition split_left_part ::
  "pystr \<Rightarrow> 'f option \<Rightarrow> py_error + (pystr \<times> pystr \<times> pystr \<times> 'f option)" where
  "split_left_part left price =
     (let parts = map py_strip (filter (\<lambda>p. py_strip p \<noteq> []) (py_split hyphen left)) in
      if length parts = 1 then Inr ([], [], parts ! 0, price)
      else if length parts = 2 then Inr (parts ! 0, parts ! 1, [], price)
      else if parts = [] then Inl IndexError
      else Inr (parts ! 0, py_join [hyphen] (butlast (tl parts)), last parts, price))"

definition parse_folder_name ::
  "(pystr \<Rightarrow> 'f option) \<Rightarrow> pystr \<Rightarrow> py_error + (pystr \<times> pystr \<times> pystr \<times> 'f option)" where
  "parse_folder_name pf name =
     (case (if underscore \<in> set name
            then (case py_rsplit1 underscore name of
                    [left, price_part] \<Rightarrow> Inr (left, pf (py_strip price_part))
                  | _ \<Rightarrow> Inl ValueError)
            else Inr (name, None)) of
        Inl e \<Rightarrow> Inl e
      | Inr (left, price) \<Rightarrow> split_left_part left price)"

subsection \<open>pipeline/processor.py\<close>

text \<open>
  \<^verbatim>\<open>parse_folder_name(name)\<close> of \<^verbatim>\<open>pipeline/processor.py\<close>, the parser that
  \<^verbatim>\<open>build_folder_context\<close> calls. It returns a dictionary with the four keys below.
\<close>

record 'f parsed =
  parsed_product_type :: pystr
  materials_raw :: pystr
  parsed_series :: pystr
  parsed_price :: "'f option"

text \<open>The second half of the function: the base part is cut at its first two hyphens.\<close>

definition processor_split_base :: "pystr \<Rightarrow> 'f option \<Rightarrow> 'f parsed" where
  "processor_split_base base_part price =
     (let parts = py_split_max hyphen 2 base_part
      in \<lparr> parsed_product_type = (if length parts > 0 then py_strip (parts ! 0) else []),
           materials_raw = (if length parts > 1 then py_strip (parts ! 1) else []),
           parsed_series = (if length parts > 2 then py_strip (parts ! 2) else []),
           parsed_price = price \<rparr>)"

definition processor_parse_folder_name :: "(pystr \<Rightarrow> 'f option) \<Rightarrow> pystr \<Rightarrow> 'f parsed" where
  "processor_parse_folder_name pf name0 =
     (let name = py_strip name0;
          (base_part0, sep, price_part) = py_rpartition underscore name;
          price = (if sep \<noteq> [] then pf price_part else None);
          base_part = (if sep \<noteq> [] then base_part0 else name)
      in processor_split_base base_part price)"

section \<open>State store and loader\<close>

subsection \<open>core/state\_store.py\<close>

text \<open>
  The state is the dictionary \<^verbatim>\<open>{"folders": {folder_id: record}}\<close>. A record is itself a
  dictionary from keys to values; \<^verbatim>\<open>mark_folder_status\<close> writes the keys \<^verbatim>\<open>name\<close>,
  \<^verbatim>\<open>status\<close> (strings) and \<^verbatim>\<open>platforms\<close> (a dictionary from platform names to metadata of
  any shape, the type parameter \<open>'m\<close>). The \<^verbatim>\<open>folders\<close> key itself can be absent from a
  loaded document, which the methods guard against, so it is optional here.
\<close>

datatype 'm field = Str pystr | Platforms "pystr \<rightharpoonup> 'm"

type_synonym 'm folder_record = "pystr \<rightharpoonup> 'm field"

record 'm state_doc =
  folders :: "(pystr \<rightharpoonup> 'm folder_record) option"

text \<open>
  The backing file, as the two calls of \<^verbatim>\<open>_load\<close> see it. \<^verbatim>\<open>self.filepath.exists()\<close>
  answers \<^verbatim>\<open>False\<close> (\<open>Missing\<close>), or raises an \<^verbatim>\<open>OSError\<close> (\<open>Inaccessible\<close>: pathlib up to
  Python 3.11 lets every error but "not found" through, for example \<^verbatim>\<open>PermissionError\<close>
  for a file in a directory that cannot be searched), or answers \<^verbatim>\<open>True\<close>; then
  \<^verbatim>\<open>open\<close> and \<^verbatim>\<open>json.load\<close> raise an exception (\<open>Unreadable\<close>) or return a state
  document.
\<close>

datatype load_error = OSError_in_open | UnicodeDecodeError | JSONDecodeError

datatype 'm backing_file =
  Inaccessible | Missing | Unreadable load_error | Document "'m state_doc"

record 'm StateStore =
  store_file :: "'m backing_file"
  store_state :: "'m state_doc"

text \<open>
  \<^verbatim>\<open>_load\<close>: the existence check stands before the \<^verbatim>\<open>try\<close> block, so its exception
  leaves \<^verbatim>\<open>_load\<close> and the constructor; the \<^verbatim>\<open>try\<close> block catches every exception of
  reading and parsing and starts again from \<^verbatim>\<open>{"folders": {}}\<close>.
\<close>

definition load :: "'m backing_file \<Rightarrow> py_error + 'm state_doc" where
  "load f =
     (case f of
        Inaccessible \<Rightarrow> Inl OSError
      | Missing \<Rightarrow> Inr \<lparr> folders = Some Map.empty \<rparr>
      | Unreadable e \<Rightarrow> Inr \<lparr> folders = Some Map.empty \<rparr>
      | Document d \<Rightarrow>
          Inr (if folders d = None then d \<lparr> folders := Some Map.empty \<rparr> else d))"

definition StateStore_init :: "'m backing_file \<Rightarrow> py_error + 'm StateStore" where
  "StateStore_init f =
     (case load f of
        Inl e \<Rightarrow> Inl e
      | Inr d \<Rightarrow> Inr \<lparr> store_file = f, store_state = d \<rparr>)"

definition save :: "'m StateStore \<Rightarrow> 'm StateStore" where
  "save s = s \<lparr> store_file := Document (store_state s) \<rparr>"

definition get_processed_folder_ids :: "'m StateStore \<Rightarrow> pystr set" where
  "get_processed_folder_ids s =
     (case folders (store_state s) of None \<Rightarrow> {} | Some fs \<Rightarrow> dom fs)"

definition get_folder_record :: "'m StateStore \<Rightarrow> pystr \<Rightarrow> 'm folder_record" where
  "get_folder_record s folder_id =
     (case folders (store_state s) of
        None \<Rightarrow> Map.empty
      | Some fs \<Rightarrow> (case fs folder_id of None \<Rightarrow> Map.empty | Some r \<Rightarrow> r))"

text \<open>\<^verbatim>\<open>platforms or {}\<close>: no argument, \<^verbatim>\<open>None\<close> and the empty dictionary all give \<^verbatim>\<open>{}\<close>.\<close>

definition mark_folder_status ::
  "'m StateStore \<Rightarrow> pystr \<Rightarrow> pystr \<Rightarrow> pystr \<Rightarrow> (pystr \<rightharpoonup> 'm) option \<Rightarrow> 'm StateStore" where
  "mark_folder_status s folder_id name status platforms =
     (let fs = (case folders (store_state s) of None \<Rightarrow> Map.empty | Some fs \<Rightarrow> fs);
          r = [str ''name'' \<mapsto> Str name,
               str ''status'' \<mapsto> Str status,
               str ''platforms'' \<mapsto>
                 Platforms (case platforms of None \<Rightarrow> Map.empty | Some p \<Rightarrow> p)]
      in save (s \<lparr> store_state := (store_state s) \<lparr> folders := Some (fs(folder_id \<mapsto> r)) \<rparr> \<rparr>))"

definition list_unfinished_folders ::
  "'m StateStore \<Rightarrow> pystr list option \<Rightarrow> (pystr \<rightharpoonup> 'm folder_record)" where
  "list_unfinished_folders s status_filter =
     (let flt = (case status_filter of
                   None \<Rightarrow> [str ''pending'', str ''failed'']
                 | Some l \<Rightarrow> if l = [] then [str ''pending'', str ''failed''] else l);
          fs = (case folders (store_state s) of None \<Rightarrow> Map.empty | Some fs \<Rightarrow> fs)
      in (\<lambda>fid. case fs fid of
                  None \<Rightarrow> None
                | Some r \<Rightarrow> (case r (str ''status'') of
                              Some (Str st) \<Rightarrow> if st \<in> set flt then Some r else None
                            | _ \<Rightarrow> None)))"

subsection \<open>pipeline/loader.py\<close>

text \<open>
  A folder as \<^verbatim>\<open>DriveClient.list_subfolders\<close> returns it (the fields it asks Drive for).
  The listing is the Drive client's answer and the state file is the file at
  \<^verbatim>\<open>STATE_STORE_FILE\<close>: both are arguments of the model.
\<close>

record folder_meta =
  meta_id :: pystr
  meta_name :: pystr
  createdTime :: pystr

definition find_new_product_folders ::
  "'m backing_file \<Rightarrow> folder_meta list \<Rightarrow> py_error + folder_meta list" where
  "find_new_product_folders state_store_file all_folders =
     (case StateStore_init state_store_file of
        Inl e \<Rightarrow> Inl e
      | Inr state \<Rightarrow>
          (let processed_ids = get_processed_folder_ids state
           in Inr (filter (\<lambda>f. meta_id f \<notin> processed_ids) all_folders)))"

section \<open>Product normalizer\<close>

subsection \<open>core/product\_normalizer.py: tags and materials\<close>

definition MATERIALS_MAPPING :: "(pystr \<times> pystr) list" where
  "MATERIALS_MAPPING =
     [([0x767D, 0x82B7], str ''white angelica root''),
      ([0x7518, 0x8349], str ''licorice root''),
      ([0x677E, 0x679C], str ''pine cone''),
      ([0x6849, 0x6811, 0x679C], str ''eucalyptus pod''),
      ([0x4E94, 0x773C, 0x679C], str ''five-eye fruit''),
      ([0x767D, 0x4E94, 0x773C, 0x679C], str ''white five-eye fruit''),
      ([0x9ED1, 0x4E94, 0x773C, 0x679C], str ''black five-eye fruit''),
      ([0x677E, 0x9488], str ''pine needle''),
      ([0x94F6, 0x674F, 0x53F6], str ''ginkgo leaf''),
      ([0x67AB, 0x53F6], str ''maple leaf''),
      ([0x6811, 0x8102], str ''resin''),
      ([0x5408, 0x91D1], str ''alloy''),
      ([0x91D1, 0x5C5E], str ''metal''),
      ([0x94F6], str ''silver''),
      ([0x91D1], str ''gold''),
      ([0x94DC], str ''copper'')]"

definition translate_material :: "pystr \<Rightarrow> pystr" where
  "translate_material chinese_name =
     (let stripped = py_strip chinese_name
      in case map_of MATERIALS_MAPPING stripped of None \<Rightarrow> stripped | Some english \<Rightarrow> english)"

text \<open>
  The loop of \<^verbatim>\<open>clean_tags\<close>, with its two variables \<^verbatim>\<open>cleaned\<close> and \<^verbatim>\<open>seen\<close>; the
  \<^verbatim>\<open>break\<close> returns as soon as \<^verbatim>\<open>cleaned\<close> has \<^verbatim>\<open>max_count\<close> entries. \<open>lw\<close> is
  \<^verbatim>\<open>str.lower\<close>.
\<close>

fun clean_tags_loop ::
  "(pystr \<Rightarrow> pystr) \<Rightarrow> int \<Rightarrow> pystr list \<Rightarrow> pystr list \<Rightarrow> pystr set \<Rightarrow> pystr list" where
  "clean_tags_loop lw max_count [] cleaned seen = cleaned"
| "clean_tags_loop lw max_count (tag # tags) cleaned seen =
     (let t = lw (py_strip tag) in
      if t \<noteq> [] \<and> t \<notin> seen then
        (if int (length (cleaned @ [t])) \<ge> max_count then cleaned @ [t]
         else clean_tags_loop lw max_count tags (cleaned @ [t]) (insert t seen))
      else clean_tags_loop lw max_count tags cleaned seen)"

definition clean_tags :: "(pystr \<Rightarrow> pystr) \<Rightarrow> pystr list \<Rightarrow> int \<Rightarrow> pystr list" where
  "clean_tags lw tags max_count =
     (if tags = [] then [] else clean_tags_loop lw max_count tags [] {})"

text \<open>
  \<^verbatim>\<open>re.split(r'[-,\s]+', s)\<close>: the string is scanned from the left; a run of separator
  characters closes the current piece.
\<close>

definition is_material_sep :: "nat \<Rightarrow> bool" where
  "is_material_sep c \<longleftrightarrow> c = 45 \<or> c = 44 \<or> isspace c"

fun re_split_scan :: "pystr \<Rightarrow> bool \<Rightarrow> pystr \<Rightarrow> pystr list" where
  "re_split_scan cur in_sep [] = [cur]"
| "re_split_scan cur in_sep (c # cs) =
     (if is_material_sep c then
        (if in_sep then re_split_scan cur True cs else cur # re_split_scan [] True cs)
      else re_split_scan (cur @ [c]) False cs)"

definition re_split_materials :: "pystr \<Rightarrow> pystr list" where
  "re_split_materials s = re_split_scan [] False s"

text \<open>
  Python numbers. A \<^verbatim>\<open>float\<close> is a finite value (given by its exact rational value; the
  two zeros are one value here), an infinity or NaN. A JSON number is read by
  \<^verbatim>\<open>json.loads\<close> as an \<^verbatim>\<open>int\<close> of any size or as a \<^verbatim>\<open>float\<close> (it accepts \<^verbatim>\<open>NaN\<close> and
  \<^verbatim>\<open>Infinity\<close>).
\<close>

datatype pyfloat = Finite rat | PosInf | NegInf | NaN

datatype number = IntNum int | FloatNum pyfloat





fun bit_length :: "nat \<Rightarrow> nat" where
  "bit_length 0 = 0"
| "bit_length (Suc n) = Suc (bit_length (Suc n div 2))"

definition int_to_float :: "int \<Rightarrow> py_error + pyfloat" where
  "int_to_float i =
     (let n = nat \<bar>i\<bar>;
          shift = bit_length n - 53;
          q = n div 2 ^ shift;
          r = n mod 2 ^ shift;
          q' = (if 2 * r > 2 ^ shift \<or> (2 * r = 2 ^ shift \<and> odd q) then q + 1 else q);
          v = q' * 2 ^ shift
      in if v \<ge> 2 ^ 1024 then Inl OverflowError
         else Inr (Finite (if i < 0 then - of_nat v else of_nat v)))"

record drive_file =
  file_id :: pystr
  file_name :: pystr
  mimeType :: pystr

text \<open>\<^verbatim>\<open>FolderContext\<close> of \<^verbatim>\<open>core/folder_context.py\<close>.\<close>

record FolderContext =
  folder_id :: pystr
  folder_name :: pystr
  created_time :: pystr
  product_type :: pystr
  raw_materials_str :: pystr
  series :: pystr
  price_from_name :: "pyfloat option"
  image_files :: "drive_file list"
  note_file :: "drive_file option"
  other_files :: "drive_file list"
  note_text :: pystr

text \<open>The two loops of \<^verbatim>\<open>clean_materials\<close> over the set \<^verbatim>\<open>all_materials\<close>.\<close>

fun add_ai_materials :: "pystr list \<Rightarrow> pystr set \<Rightarrow> pystr set" where
  "add_ai_materials [] all_materials = all_materials"
| "add_ai_materials (mat # materials) all_materials =
     (if mat \<noteq> []
      then add_ai_materials materials (insert (translate_material (py_strip mat)) all_materials)
      else add_ai_materials materials all_materials)"

fun add_folder_materials :: "pystr list \<Rightarrow> pystr set \<Rightarrow> pystr set" where
  "add_folder_materials [] all_materials = all_materials"
| "add_folder_materials (mat # raw_materials) all_materials =
     (if py_strip mat \<noteq> []
      then add_folder_materials raw_materials
             (insert (translate_material (py_strip mat)) all_materials)
      else add_folder_materials raw_materials all_materials)"

definition clean_materials :: "pystr list \<Rightarrow> FolderContext \<Rightarrow> pystr list" where
  "clean_materials materials folder_ctx =
     (let all_materials = add_ai_materials materials {};
          all_materials =
            (if raw_materials_str folder_ctx \<noteq> []
             then add_folder_materials (re_split_materials (raw_materials_str folder_ctx))
                    all_materials
             else all_materials)
      in sorted_list_of_set all_materials)"

subsection \<open>core/product\_normalizer.py: normalize\_product\<close>

text \<open>
  The AI response, one optional field per key that \<^verbatim>\<open>normalize_product\<close> reads
  (\<open>None\<close>: the key is absent; for \<^verbatim>\<open>price\<close> also the JSON \<^verbatim>\<open>null\<close>, which \<^verbatim>\<open>get\<close>
  returns as \<^verbatim>\<open>None\<close> too). The values have the types the AI contract gives them:
  strings, lists of strings, numbers.
\<close>

record ai_json =
  ai_id_from_drive :: "pystr option"
  ai_product_type :: "pystr option"
  ai_series :: "pystr option"
  ai_price :: "number option"
  ai_currency :: "pystr option"
  ai_quantity :: "int option"
  ai_tags :: "pystr list option"
  ai_materials :: "pystr list option"
  ai_colors :: "pystr list option"
  ai_style :: "pystr option"
  ai_category :: "pystr option"
  ai_who_made :: "pystr option"
  ai_when_made :: "pystr option"



text \<open>
  \<^verbatim>\<open>ProductDraft\<close> of \<^verbatim>\<open>core/product_schema.py\<close>, with the fields \<^verbatim>\<open>normalize_product\<close>
  computes from the strings, lists and numbers above. The three text fields
  (\<^verbatim>\<open>title\<close>, \<^verbatim>\<open>description\<close>, \<^verbatim>\<open>short_description\<close>) and the fixed care text are left out.
\<close>

record ProductDraft =
  draft_id :: pystr
  price :: pyfloat
  currency :: pystr
  quantity :: int
  tags :: "pystr list"
  materials :: "pystr list"
  colors :: "pystr list"
  style :: pystr
  draft_product_type :: pystr
  category :: pystr
  draft_series :: pystr
  brand_name :: pystr
  handmade :: bool
  made_to_order :: bool
  who_made :: pystr
  when_made :: pystr
  raw_ai_json :: ai_json
  draft_notes :: pystr


section \<open>Facts about the string operations\<close>

lemma not_isspace_us [simp]: "\<not> isspace 95" "\<not> isspace 45" by (simp_all add: isspace_def)

lemma py_rstrip_append_nonspace: "\<not> isspace c \<Longrightarrow> py_rstrip (l @ c # p) = l @ c # py_rstrip p"
  by (simp add: py_rstrip_def dropWhile_append)

lemma py_lstrip_append_nonspace: "\<not> isspace c \<Longrightarrow> py_lstrip (l @ c # p) = py_lstrip l @ c # p"
  by (simp add: py_lstrip_def dropWhile_append)

lemma py_strip_append_nonspace:
  "\<not> isspace c \<Longrightarrow> py_strip (l @ c # p) = py_lstrip l @ c # py_rstrip p"
  by (simp add: py_strip_def py_rstrip_append_nonspace py_lstrip_append_nonspace)

lemma py_rsplit1_append: "sep \<notin> set p \<Longrightarrow> py_rsplit1 sep (l @ sep # p) = [l, p]"
  by (auto simp: py_rsplit1_def takeWhile_append dropWhile_append)

lemma py_rpartition_append: "sep \<notin> set p \<Longrightarrow> py_rpartition sep (l @ sep # p) = (l, [sep], p)"
  by (auto simp: py_rpartition_def takeWhile_append dropWhile_append)

lemma py_split_nonempty [simp]: "py_split sep s \<noteq> []"
  by (induction s) (auto split: list.splits)

lemma py_split_no_sep: "sep \<notin> set s \<Longrightarrow> py_split sep s = [s]"
  by (induction s) auto

lemma py_split_append: "sep \<notin> set a \<Longrightarrow> py_split sep (a @ sep # b) = a # py_split sep b"
  by (induction a) (auto split: list.splits)

lemma py_split_join:
  "ts \<noteq> [] \<Longrightarrow> \<forall>t\<in>set ts. sep \<notin> set t \<Longrightarrow> py_split sep (py_join [sep] ts) = ts"
  by (induction "[sep]" ts rule: py_join.induct) (auto simp: py_split_no_sep py_split_append)

lemma py_join_split: "py_join [sep] (py_split sep s) = s"
proof (induction s)
  case Nil
  then show ?case by simp
next
  case (Cons c cs)
  obtain p ps where sp: "py_split sep cs = p # ps"
    by (cases "py_split sep cs") auto
  show ?case
  proof (cases "c = sep")
    case True
    with Cons sp show ?thesis by (cases ps) auto
  next
    case False
    with Cons sp show ?thesis by (cases ps) auto
  qed
qed

lemma py_split_sep_free: "t \<in> set (py_split sep s) \<Longrightarrow> sep \<notin> set t"
  by (induction s arbitrary: t) (auto split: list.splits if_splits)

lemma py_split_max_append:
  "sep \<notin> set a \<Longrightarrow> py_split_max sep (Suc n) (a @ sep # b) = a # py_split_max sep n b"
  by (auto simp: takeWhile_append dropWhile_append)

lemma py_split_max_no_sep: "sep \<notin> set s \<Longrightarrow> py_split_max sep n s = [s]"
  by (cases n) auto

lemma py_lstrip_id: "x \<noteq> [] \<Longrightarrow> \<not> isspace (hd x) \<Longrightarrow> py_lstrip x = x"
  by (cases x) (auto simp: py_lstrip_def)

lemma py_rstrip_id: "x \<noteq> [] \<Longrightarrow> \<not> isspace (last x) \<Longrightarrow> py_rstrip x = x"
  by (cases x rule: rev_cases) (auto simp: py_rstrip_def)

lemma py_strip_id: "x \<noteq> [] \<Longrightarrow> \<not> isspace (hd x) \<Longrightarrow> \<not> isspace (last x) \<Longrightarrow> py_strip x = x"
  by (simp add: py_strip_def py_lstrip_id py_rstrip_id)

lemma py_rstrip_last: "py_rstrip x \<noteq> [] \<Longrightarrow> \<not> isspace (last (py_rstrip x))"
  unfolding py_rstrip_def by (simp add: last_rev hd_dropWhile)

lemma py_strip_hd: "py_strip x \<noteq> [] \<Longrightarrow> \<not> isspace (hd (py_strip x))"
  unfolding py_strip_def py_lstrip_def by (rule hd_dropWhile)

lemma last_dropWhile_nonempty: "dropWhile P ys \<noteq> [] \<Longrightarrow> last (dropWhile P ys) = last ys"
  by (metis last_appendR takeWhile_dropWhile_id)

lemma py_strip_last: "py_strip x \<noteq> [] \<Longrightarrow> \<not> isspace (last (py_strip x))"
proof -
  assume ne: "py_strip x \<noteq> []"
  then have r: "py_rstrip x \<noteq> []"
    by (auto simp: py_strip_def py_lstrip_def)
  from ne have "last (py_strip x) = last (py_rstrip x)"
    unfolding py_strip_def py_lstrip_def by (rule last_dropWhile_nonempty)
  with py_rstrip_last [OF r] show ?thesis by simp
qed

lemma trimmed_ends:
  assumes "py_strip x = x" "x \<noteq> []"
  shows "\<not> isspace (hd x)" "\<not> isspace (last x)"
  using py_strip_hd [of x] py_strip_last [of x] assms by simp_all

lemma set_py_rstrip: "set (py_rstrip p) \<subseteq> set p"
  unfolding py_rstrip_def using set_dropWhileD by fastforce

lemma set_py_lstrip: "set (py_lstrip p) \<subseteq> set p"
  unfolding py_lstrip_def using set_dropWhileD by fastforce

lemma set_py_strip: "set (py_strip p) \<subseteq> set p"
  unfolding py_strip_def using set_py_lstrip set_py_rstrip by blast

lemma py_join_Cons: "ts \<noteq> [] \<Longrightarrow> py_join sep (t # ts) = t @ sep @ py_join sep ts"
  by (cases ts) auto

lemma py_join_hd: "ts \<noteq> [] \<Longrightarrow> hd ts \<noteq> [] \<Longrightarrow> hd (py_join sep ts) = hd (hd ts)"
  by (induction sep ts rule: py_join.induct) auto

lemma py_join_nonempty: "ts \<noteq> [] \<Longrightarrow> last ts \<noteq> [] \<Longrightarrow> py_join sep ts \<noteq> []"
  by (induction sep ts rule: py_join.induct) auto

lemma py_join_last: "ts \<noteq> [] \<Longrightarrow> last ts \<noteq> [] \<Longrightarrow> last (py_join sep ts) = last (last ts)"
  by (induction sep ts rule: py_join.induct) (auto simp: py_join_nonempty)

lemma py_strip_join:
  assumes "ts \<noteq> []" "\<forall>x\<in>set ts. x \<noteq> [] \<and> py_strip x = x"
  shows "py_strip (py_join sep ts) = py_join sep ts"
proof (rule py_strip_id)
  from assms have h: "hd ts \<noteq> []" and l: "last ts \<noteq> []" by auto
  show "py_join sep ts \<noteq> []" using assms(1) l by (rule py_join_nonempty)
  have "py_strip (hd ts) = hd ts" "py_strip (last ts) = last ts" using assms by auto
  then show "\<not> isspace (hd (py_join sep ts))" "\<not> isspace (last (py_join sep ts))"
    using trimmed_ends h l assms(1) by (simp_all add: py_join_hd py_join_last)
qed

lemma py_strip_idem: "py_strip (py_strip x) = py_strip x"
proof (cases "py_strip x = []")
  case True
  have "py_strip [] = []" by (simp add: py_strip_def py_lstrip_def py_rstrip_def)
  with True show ?thesis by simp
next
  case False
  then show ?thesis using py_strip_hd py_strip_last by (intro py_strip_id) auto
qed

lemma py_split_max_2:
  "py_split_max sep 2 s =
     (if sep \<in> set s
      then takeWhile (\<lambda>c. c \<noteq> sep) s # py_split_max sep (Suc 0) (tl (dropWhile (\<lambda>c. c \<noteq> sep) s))
      else [s])"
  by (simp add: numeral_2_eq_2)

section \<open>Properties of the folder-name parsers\<close>

text \<open>
  C1 (a name \<^verbatim>\<open>type-materials-series_price\<close> with a numeric price gives back its four
  components). The name is built from hyphen-free tokens \<open>t\<close>, \<open>ms\<close> (one or more
  material tokens) and \<open>s\<close>, each non-empty and without surrounding white space, and a
  price segment \<open>p\<close> without underscore on which the conversion succeeds (the parser of
  \<^verbatim>\<open>core/folder_utils.py\<close> converts the stripped segment; the one of
  \<^verbatim>\<open>pipeline/processor.py\<close> strips the whole name first, so it converts the segment
  without its trailing white space). The parser of \<^verbatim>\<open>core/folder_utils.py\<close> returns
  exactly the first token, the middle tokens joined by hyphens, the last token and the
  price. The parser of \<^verbatim>\<open>pipeline/processor.py\<close> cuts at the first two hyphens only: it
  returns the first token, the first material token, and all the rest joined by hyphens
  as the series.
\<close>

theorem parse_folder_name_components:
  assumes tok: "\<forall>x\<in>set (t # ms @ [s]). x \<noteq> [] \<and> hyphen \<notin> set x \<and> py_strip x = x"
    and ms: "ms \<noteq> []"
    and p: "underscore \<notin> set p"
    and v: "pf (py_strip p) = Some v" "pf (py_rstrip p) = Some v"
  shows "parse_folder_name pf (py_join [hyphen] (t # ms @ [s]) @ underscore # p) =
           Inr (t, py_join [hyphen] ms, s, Some v) \<and>
         processor_parse_folder_name pf (py_join [hyphen] (t # ms @ [s]) @ underscore # p) =
           \<lparr> parsed_product_type = t, materials_raw = hd ms,
             parsed_series = py_join [hyphen] (tl ms @ [s]), parsed_price = Some v \<rparr>"
proof
  let ?ts = "t # ms @ [s]"
  let ?L = "py_join [hyphen] ?ts"
  have split: "py_split hyphen ?L = ?ts"
    using tok by (intro py_split_join) auto
  have keep: "filter (\<lambda>p. py_strip p \<noteq> []) ?ts = ?ts"
    using tok by (intro filter_True) auto
  have strip: "map py_strip ?ts = ?ts"
    using tok by (intro map_idI) auto
  have len: "length ?ts \<noteq> 1" "length ?ts \<noteq> 2"
    using ms by (cases ms, auto)+
  have mid: "butlast (tl ?ts) = ms" by simp
  have "split_left_part ?L (Some v) = Inr (t, py_join [hyphen] ms, s, Some v)"
    unfolding split_left_part_def split keep strip Let_def using len mid by simp
  then show "parse_folder_name pf (?L @ underscore # p) = Inr (t, py_join [hyphen] ms, s, Some v)"
    using p v by (simp add: parse_folder_name_def py_rsplit1_append)
next
  let ?ts = "t # ms @ [s]"
  let ?L = "py_join [hyphen] ?ts"
  obtain m ms' where msc: "ms = m # ms'" using ms by (cases ms) auto
  let ?R = "py_join [hyphen] (ms' @ [s])"
  have L: "?L = t @ hyphen # m @ hyphen # ?R"
    by (simp add: msc py_join_Cons)
  have t: "t \<noteq> []" "\<not> isspace (hd t)" "hyphen \<notin> set t" "py_strip t = t"
    using tok trimmed_ends [of t] by auto
  have m: "hyphen \<notin> set m" "py_strip m = m" using tok msc by auto
  have R: "py_strip ?R = ?R" using tok msc by (intro py_strip_join) auto
  have "py_lstrip ?L = ?L" using t by (intro py_lstrip_id) (auto simp: L)
  then have name: "py_strip (?L @ underscore # p) = ?L @ underscore # py_rstrip p"
    by (simp add: py_strip_append_nonspace)
  have us: "underscore \<notin> set (py_rstrip p)" using p set_py_rstrip by blast
  have parts: "py_split_max hyphen 2 ?L = [t, m, ?R]"
    unfolding L using t m
    by (simp add: numeral_2_eq_2 py_split_max_append del: py_split_max.simps(2))
  have part: "py_rpartition underscore (?L @ underscore # py_rstrip p) =
      (?L, [underscore], py_rstrip p)"
    using us by (rule py_rpartition_append)
  have "processor_split_base ?L (Some v) =
      \<lparr> parsed_product_type = t, materials_raw = hd ms,
        parsed_series = py_join [hyphen] (tl ms @ [s]), parsed_price = Some v \<rparr>"
    unfolding processor_split_base_def parts using t m R msc by simp
  then show "processor_parse_folder_name pf (?L @ underscore # p) =
           \<lparr> parsed_product_type = t, materials_raw = hd ms,
             parsed_series = py_join [hyphen] (tl ms @ [s]), parsed_price = Some v \<rparr>"
    unfolding processor_parse_folder_name_def name part Let_def using v by simp
qed

text \<open>The scenario name of C1, in both parsers.\<close>

theorem parse_folder_name_components_witness:
  "parse_folder_name py_float (str ''necklace-pinecone-whiteberry-hillseries_39.9'') =
     Inr (str ''necklace'', str ''pinecone-whiteberry'', str ''hillseries'', Some (399 / 10)) \<and>
   processor_parse_folder_name py_float (str ''necklace-pinecone-whiteberry-hillseries_39.9'') =
     \<lparr> parsed_product_type = str ''necklace'', materials_raw = str ''pinecone'',
       parsed_series = str ''whiteberry-hillseries'', parsed_price = Some (399 / 10) \<rparr>"
  using parse_folder_name_components [of "str ''necklace''" "[str ''pinecone'', str ''whiteberry'']"
      "str ''hillseries''" "str ''39.9''" py_float "399 / 10"]
  by (simp add: str_def py_strip_def py_lstrip_def py_rstrip_def isspace_def py_float_def
      float_strip_def is_float_space_def is_digit_def digits_value_def)

text \<open>
  On the scenario name of C1 the parser of \<^verbatim>\<open>pipeline/processor.py\<close> does not return
  \<^verbatim>\<open>materials_raw = "pinecone-whiteberry"\<close> and \<^verbatim>\<open>series = "hillseries"\<close>.
\<close>

theorem processor_scenario_counterexample:
  "materials_raw (processor_parse_folder_name py_float
       (str ''necklace-pinecone-whiteberry-hillseries_39.9'')) = str ''pinecone'' \<and>
   parsed_series (processor_parse_folder_name py_float
       (str ''necklace-pinecone-whiteberry-hillseries_39.9'')) = str ''whiteberry-hillseries'' \<and>
   str ''pinecone'' \<noteq> str ''pinecone-whiteberry'' \<and>
   str ''whiteberry-hillseries'' \<noteq> str ''hillseries''"
  by (simp add: processor_parse_folder_name_def processor_split_base_def py_rpartition_def
      py_split_max_2 str_def py_strip_def py_lstrip_def py_rstrip_def isspace_def py_float_def
      float_strip_def is_float_space_def is_digit_def digits_value_def)

lemma split_left_part_returns:
  assumes "\<exists>t\<in>set (py_split hyphen l). py_strip t \<noteq> []"
  shows "\<exists>a b c. split_left_part l pr = Inr (a, b, c, pr)"
proof -
  let ?parts = "map py_strip (filter (\<lambda>p. py_strip p \<noteq> []) (py_split hyphen l))"
  have "?parts \<noteq> []" using assms by (auto simp: filter_empty_conv)
  then show ?thesis unfolding split_left_part_def Let_def by auto
qed

text \<open>
  C2 (when the segment after the last underscore is not a number, the price is \<open>None\<close>;
  the claim adds that the whole name, suffix included, is then the left segment). Both
  parsers keep the cut at the last underscore. In \<^verbatim>\<open>core/folder_utils.py\<close>, when the
  conversion of the stripped segment fails and the part before the last underscore has a
  non-blank hyphen token, the result is the tuple that the hyphen cut of that part alone
  gives, with price \<open>None\<close>: the suffix is dropped. In \<^verbatim>\<open>pipeline/processor.py\<close> the name
  is stripped first; when the conversion of the segment without its trailing white space
  fails, the result is the hyphen cut of the part before the last underscore without its
  leading white space, with price \<open>None\<close>.
\<close>

theorem parse_folder_name_unparsable_price:
  fixes pf :: "pystr \<Rightarrow> 'f option"
  assumes "underscore \<notin> set p"
  shows "(pf (py_strip p) = None \<and> (\<exists>t\<in>set (py_split hyphen l). py_strip t \<noteq> []) \<longrightarrow>
            parse_folder_name pf (l @ underscore # p) = split_left_part l None \<and>
            (\<exists>a b c. split_left_part l (None :: 'f option) = Inr (a, b, c, None))) \<and>
         (pf (py_rstrip p) = None \<longrightarrow>
            processor_parse_folder_name pf (l @ underscore # p) =
              processor_split_base (py_lstrip l) None \<and>
            parsed_price (processor_parse_folder_name pf (l @ underscore # p)) = None)"
proof (intro conjI impI)
  assume h: "pf (py_strip p) = None \<and> (\<exists>t\<in>set (py_split hyphen l). py_strip t \<noteq> [])"
  show "parse_folder_name pf (l @ underscore # p) = split_left_part l None"
    using assms h by (simp add: parse_folder_name_def py_rsplit1_append)
  show "\<exists>a b c. split_left_part l (None :: 'f option) = Inr (a, b, c, None)"
    using h by (intro split_left_part_returns) simp
next
  assume h: "pf (py_rstrip p) = None"
  have us: "underscore \<notin> set (py_rstrip p)" using assms set_py_rstrip by blast
  have part: "py_rpartition underscore (py_lstrip l @ underscore # py_rstrip p) =
      (py_lstrip l, [underscore], py_rstrip p)"
    using us by (rule py_rpartition_append)
  show eq: "processor_parse_folder_name pf (l @ underscore # p) =
      processor_split_base (py_lstrip l) None"
    unfolding processor_parse_folder_name_def
    using h by (simp add: py_strip_append_nonspace part)
  show "parsed_price (processor_parse_folder_name pf (l @ underscore # p)) = None"
    unfolding eq by (simp add: processor_split_base_def Let_def)
qed

text \<open>A name with an unparsable suffix, in both parsers.\<close>

theorem parse_folder_name_unparsable_price_witness:
  "parse_folder_name py_float (str ''a-b-c_x'') = Inr (str ''a'', str ''b'', str ''c'', None) \<and>
   processor_parse_folder_name py_float (str ''a-b-c_x'') =
     \<lparr> parsed_product_type = str ''a'', materials_raw = str ''b'', parsed_series = str ''c'',
       parsed_price = None \<rparr>"
  using parse_folder_name_unparsable_price [of "str ''x''" py_float "str ''a-b-c''"]
  by (simp add: split_left_part_def processor_split_base_def py_split_max_2
      str_def py_strip_def py_lstrip_def py_rstrip_def isspace_def py_float_def
      float_strip_def is_float_space_def is_digit_def digits_value_def)

text \<open>
  In the name \<^verbatim>\<open>earring-fern-forest_x\<close> the series is \<^verbatim>\<open>forest\<close>; with the whole name
  as the left segment it would be \<^verbatim>\<open>forest_x\<close>.
\<close>

theorem whole_name_as_left_segment_counterexample:
  "parse_folder_name py_float (str ''earring-fern-forest_x'') =
     Inr (str ''earring'', str ''fern'', str ''forest'', None) \<and>
   split_left_part (str ''earring-fern-forest_x'') (None :: rat option) =
     Inr (str ''earring'', str ''fern'', str ''forest_x'', None) \<and>
   str ''forest'' \<noteq> str ''forest_x''"
  by (simp add: parse_folder_name_def split_left_part_def py_rsplit1_def
      str_def py_strip_def py_lstrip_def py_rstrip_def isspace_def py_float_def
      float_strip_def is_float_space_def is_digit_def digits_value_def)

text \<open>
  C9 (the parser never raises; in the worst case every field is empty and the price is
  \<open>None\<close>). The parser of \<^verbatim>\<open>core/folder_utils.py\<close> does raise: when no hyphen token is
  left after the blank ones are dropped, the token count is 0, the dispatch falls into
  the last branch (commented \<^verbatim>\<open>len >= 3\<close> in the source) and \<^verbatim>\<open>parts[0]\<close> raises
  \<^verbatim>\<open>IndexError\<close>. The empty name and a name made of hyphens are such inputs whatever the
  number conversion does, and so is a name that is only a price.
\<close>

theorem parse_folder_name_no_token_raises:
  "parse_folder_name pf (str '''') = Inl IndexError \<and>
   parse_folder_name pf (str ''---'') = Inl IndexError \<and>
   parse_folder_name py_float (str ''_25'') = Inl IndexError"
  by (simp add: parse_folder_name_def split_left_part_def py_rsplit1_def str_def py_strip_def
      py_lstrip_def py_rstrip_def isspace_def py_float_def float_strip_def
      is_float_space_def is_digit_def digits_value_def)

text \<open>The same inputs with the conversion on decimal literals.\<close>

theorem parse_folder_name_no_token_raises_witness:
  "parse_folder_name py_float (str '''') = Inl IndexError \<and>
   parse_folder_name py_float (str ''---'') = Inl IndexError \<and>
   parse_folder_name py_float (str ''_25'') = Inl IndexError"
  using parse_folder_name_no_token_raises [of py_float] by simp

subsection \<open>The two parsers compared\<close>

lemma py_lstrip_idem: "py_lstrip (py_lstrip a) = py_lstrip a"
  by (simp add: py_lstrip_def)

lemma py_rstrip_idem: "py_rstrip (py_rstrip a) = py_rstrip a"
  by (simp add: py_rstrip_def)

lemma py_rstrip_lstrip: "py_rstrip (py_lstrip a) = py_lstrip (py_rstrip a)"
proof (cases "\<forall>c\<in>set a. isspace c")
  case True
  then have h: "dropWhile isspace a = []" "dropWhile isspace (rev a) = []"
    by simp_all
  show ?thesis unfolding py_lstrip_def py_rstrip_def h by simp
next
  case False
  then obtain pre c rest where a: "a = pre @ c # rest" "\<forall>x\<in>set pre. isspace x" "\<not> isspace c"
    using split_list_first_prop [of a "\<lambda>c. \<not> isspace c"] by auto
  from a(2) have pre: "py_lstrip pre = []" by (simp add: py_lstrip_def)
  have "py_lstrip a = c # rest"
    using a pre by (simp add: py_lstrip_append_nonspace)
  then have l: "py_rstrip (py_lstrip a) = c # py_rstrip rest"
    using a(3) py_rstrip_append_nonspace [of c "[]" rest] by simp
  have "py_rstrip a = pre @ c # py_rstrip rest"
    using a by (simp add: py_rstrip_append_nonspace)
  then have "py_lstrip (py_rstrip a) = c # py_rstrip rest"
    using a(3) pre by (simp add: py_lstrip_append_nonspace)
  with l show ?thesis by simp
qed

lemma py_strip_lstrip: "py_strip (py_lstrip a) = py_strip a"
  by (simp add: py_strip_def py_rstrip_lstrip py_lstrip_idem)

lemma py_strip_rstrip: "py_strip (py_rstrip a) = py_strip a"
  by (simp add: py_strip_def py_rstrip_idem)

lemma py_split_two:
  assumes "py_split sep l = [a, b]"
  shows "l = a @ sep # b" "sep \<notin> set a" "sep \<notin> set b"
proof -
  have "py_join [sep] (py_split sep l) = l" by (rule py_join_split)
  then show "l = a @ sep # b" using assms by simp
  show "sep \<notin> set a" "sep \<notin> set b"
    using py_split_sep_free [of _ sep l] assms by simp_all
qed

lemma py_split_three:
  assumes "py_split sep l = [a, b, c]"
  shows "l = a @ sep # b @ sep # c" "sep \<notin> set a" "sep \<notin> set b" "sep \<notin> set c"
proof -
  have "py_join [sep] (py_split sep l) = l" by (rule py_join_split)
  then show "l = a @ sep # b @ sep # c" using assms by simp
  show "sep \<notin> set a" "sep \<notin> set b" "sep \<notin> set c"
    using py_split_sep_free [of _ sep l] assms by simp_all
qed

lemma processor_split_base_two:
  assumes "hyphen \<notin> set a" "hyphen \<notin> set b"
  shows "processor_split_base (a @ hyphen # b) pr =
    \<lparr> parsed_product_type = py_strip a, materials_raw = py_strip b, parsed_series = [],
      parsed_price = pr \<rparr>"
proof -
  have "py_split_max hyphen 2 (a @ hyphen # b) = [a, b]"
    using assms
    by (simp add: numeral_2_eq_2 py_split_max_append py_split_max_no_sep
        del: py_split_max.simps(2))
  then show ?thesis by (simp add: processor_split_base_def)
qed

lemma processor_split_base_three:
  assumes "hyphen \<notin> set a" "hyphen \<notin> set b"
  shows "processor_split_base (a @ hyphen # b @ hyphen # c) pr =
    \<lparr> parsed_product_type = py_strip a, materials_raw = py_strip b, parsed_series = py_strip c,
      parsed_price = pr \<rparr>"
proof -
  have "py_split_max hyphen 2 (a @ hyphen # b @ hyphen # c) = [a, b, c]"
    using assms by (simp add: numeral_2_eq_2 py_split_max_append del: py_split_max.simps(2))
  then show ?thesis by (simp add: processor_split_base_def)
qed

text \<open>The fields both parsers give for two or three non-blank tokens.\<close>

lemma split_left_part_tokens:
  assumes "py_split hyphen l = ts" "length ts = 2 \<or> length ts = 3"
    and "\<forall>t\<in>set ts. py_strip t \<noteq> []"
  shows "split_left_part l pr =
    Inr (py_strip (ts ! 0), py_strip (ts ! 1),
         (if length ts = 3 then py_strip (ts ! 2) else []), pr)"
proof -
  have keep: "filter (\<lambda>p. py_strip p \<noteq> []) ts = ts"
    using assms(3) by (intro filter_True) simp
  from assms(2) show ?thesis
  proof
    assume "length ts = 2"
    then obtain a b where "ts = [a, b]"
      by (cases ts; cases "tl ts"; cases "tl (tl ts)") auto
    then show ?thesis unfolding split_left_part_def assms(1) keep by simp
  next
    assume "length ts = 3"
    then obtain a b c where "ts = [a, b, c]"
      by (cases ts; cases "tl ts"; cases "tl (tl ts)"; cases "tl (tl (tl ts))") auto
    then show ?thesis unfolding split_left_part_def assms(1) keep by simp
  qed
qed

lemma processor_split_base_tokens:
  assumes "py_split hyphen l = ts" "length ts = 2 \<or> length ts = 3"
    and "base = py_lstrip l \<or> base = py_strip l"
  shows "processor_split_base base pr =
    \<lparr> parsed_product_type = py_strip (ts ! 0), materials_raw = py_strip (ts ! 1),
      parsed_series = (if length ts = 3 then py_strip (ts ! 2) else []), parsed_price = pr \<rparr>"
proof -
  from assms(2) show ?thesis
  proof
    assume "length ts = 2"
    then obtain a b where ts: "ts = [a, b]"
      by (cases ts; cases "tl ts"; cases "tl (tl ts)") auto
    note d = py_split_two [OF assms(1) [unfolded ts]]
    have la: "hyphen \<notin> set (py_lstrip a)" using d(2) set_py_lstrip by blast
    have rb: "hyphen \<notin> set (py_rstrip b)" using d(3) set_py_rstrip by blast
    have "base = py_lstrip a @ hyphen # b \<or> base = py_lstrip a @ hyphen # py_rstrip b"
      using assms(3) unfolding d(1)
      by (simp add: py_lstrip_append_nonspace py_strip_append_nonspace)
    then show ?thesis
      using la rb d(3)
      by (auto simp: ts processor_split_base_two py_strip_lstrip py_strip_rstrip)
  next
    assume "length ts = 3"
    then obtain a b c where ts: "ts = [a, b, c]"
      by (cases ts; cases "tl ts"; cases "tl (tl ts)"; cases "tl (tl (tl ts))") auto
    note d = py_split_three [OF assms(1) [unfolded ts]]
    have la: "hyphen \<notin> set (py_lstrip a)" using d(2) set_py_lstrip by blast
    have "py_rstrip (b @ hyphen # c) = b @ hyphen # py_rstrip c"
      by (simp add: py_rstrip_append_nonspace)
    then have "base = py_lstrip a @ hyphen # b @ hyphen # c \<or>
        base = py_lstrip a @ hyphen # b @ hyphen # py_rstrip c"
      using assms(3) unfolding d(1)
      by (simp add: py_lstrip_append_nonspace py_strip_append_nonspace)
    then show ?thesis
      using la d(3)
      by (auto simp: ts processor_split_base_three py_strip_lstrip py_strip_rstrip)
  qed
qed

text \<open>
  C10 (the two parsers return the same fields for every name). They do when the part
  before the last underscore (the whole name when there is none) has two or three
  hyphen tokens, none of them blank, and, when there is an underscore, the conversion
  gives the same for the last segment stripped on both sides (what
  \<^verbatim>\<open>core/folder_utils.py\<close> converts) and stripped on the right only (what
  \<^verbatim>\<open>pipeline/processor.py\<close> converts), as it does whenever the segment has no leading
  white space. The dictionary of \<^verbatim>\<open>pipeline/processor.py\<close> is read as the tuple of its
  four values.
\<close>

theorem parsers_agree_on_two_or_three_tokens:
  fixes pf :: "pystr \<Rightarrow> 'f option"
  assumes seg: "underscore \<in> set name \<Longrightarrow>
        pf (py_strip (last (py_rsplit1 underscore name))) =
        pf (py_rstrip (last (py_rsplit1 underscore name)))"
    and ts: "py_split hyphen
               (if underscore \<in> set name then hd (py_rsplit1 underscore name) else name) = ts"
    and len: "length ts = 2 \<or> length ts = 3"
    and nb: "\<forall>t\<in>set ts. py_strip t \<noteq> []"
  shows "parse_folder_name pf name =
    Inr (parsed_product_type (processor_parse_folder_name pf name),
         materials_raw (processor_parse_folder_name pf name),
         parsed_series (processor_parse_folder_name pf name),
         parsed_price (processor_parse_folder_name pf name))"
proof (cases "underscore \<in> set name")
  case True
  then obtain l p where name: "name = l @ underscore # p" "underscore \<notin> set p"
    using split_list_last [of underscore name] by auto
  have split: "py_split hyphen l = ts"
    using ts True by (simp add: name py_rsplit1_append)
  have core: "parse_folder_name pf name = split_left_part l (pf (py_strip p))"
    by (simp add: parse_folder_name_def name py_rsplit1_append)
  have us: "underscore \<notin> set (py_rstrip p)" using name(2) set_py_rstrip by blast
  have part: "py_rpartition underscore (py_lstrip l @ underscore # py_rstrip p) =
      (py_lstrip l, [underscore], py_rstrip p)"
    using us by (rule py_rpartition_append)
  have conv: "pf (py_rstrip p) = pf (py_strip p)"
    using seg [OF True] by (simp add: name py_rsplit1_append)
  have "processor_parse_folder_name pf name =
      processor_split_base (py_lstrip l) (pf (py_strip p))"
    unfolding processor_parse_folder_name_def name(1)
    by (simp add: py_strip_append_nonspace part conv)
  then show ?thesis
    unfolding core
    using split_left_part_tokens [OF split len nb, of "pf (py_strip p)"]
      processor_split_base_tokens [OF split len, of "py_lstrip l" "pf (py_strip p)"]
    by simp
next
  case False
  have split: "py_split hyphen name = ts" using ts False by simp
  have core: "parse_folder_name pf name = split_left_part name None"
    using False by (simp add: parse_folder_name_def)
  have "underscore \<notin> set (py_strip name)" using False set_py_strip by blast
  then have "processor_parse_folder_name pf name = processor_split_base (py_strip name) None"
    by (simp add: processor_parse_folder_name_def py_rpartition_def)
  then show ?thesis
    unfolding core
    using split_left_part_tokens [OF split len nb, of "None :: 'f option"]
      processor_split_base_tokens [OF split len, of "py_strip name" "None :: 'f option"]
    by simp
qed

text \<open>The first scenario of the specification, a name with three tokens, in both parsers.\<close>

theorem parsers_agree_on_two_or_three_tokens_witness:
  "parse_folder_name py_float (str ''earring-driedflower-forestseries_25'') =
     Inr (str ''earring'', str ''driedflower'', str ''forestseries'', Some 25) \<and>
   processor_parse_folder_name py_float (str ''earring-driedflower-forestseries_25'') =
     \<lparr> parsed_product_type = str ''earring'', materials_raw = str ''driedflower'',
       parsed_series = str ''forestseries'', parsed_price = Some 25 \<rparr>"
proof -
  have seg: "underscore \<in> set (str ''earring-driedflower-forestseries_25'') \<Longrightarrow>
      py_float (py_strip (last (py_rsplit1 underscore
        (str ''earring-driedflower-forestseries_25'')))) =
      py_float (py_rstrip (last (py_rsplit1 underscore
        (str ''earring-driedflower-forestseries_25''))))"
    by (simp add: str_def py_rsplit1_def py_strip_def py_lstrip_def py_rstrip_def isspace_def)
  have ts: "py_split hyphen
      (if underscore \<in> set (str ''earring-driedflower-forestseries_25'')
       then hd (py_rsplit1 underscore (str ''earring-driedflower-forestseries_25''))
       else str ''earring-driedflower-forestseries_25'') =
      [str ''earring'', str ''driedflower'', str ''forestseries'']"
    by (simp add: str_def py_rsplit1_def)
  have len: "length [str ''earring'', str ''driedflower'', str ''forestseries''] = 2 \<or>
      length [str ''earring'', str ''driedflower'', str ''forestseries''] = 3" by simp
  have nb: "\<forall>t\<in>set [str ''earring'', str ''driedflower'', str ''forestseries'']. py_strip t \<noteq> []"
    by (simp add: str_def py_strip_def py_lstrip_def py_rstrip_def isspace_def)
  have p: "processor_parse_folder_name py_float (str ''earring-driedflower-forestseries_25'') =
     \<lparr> parsed_product_type = str ''earring'', materials_raw = str ''driedflower'',
       parsed_series = str ''forestseries'', parsed_price = Some 25 \<rparr>"
    by (simp add: processor_parse_folder_name_def processor_split_base_def py_rpartition_def
      py_split_max_2 str_def py_strip_def py_lstrip_def py_rstrip_def isspace_def py_float_def
      float_strip_def is_float_space_def is_digit_def digits_value_def)
  show ?thesis
    using parsers_agree_on_two_or_three_tokens [OF seg ts len nb] p by simp
qed

text \<open>
  With one token the parser of \<^verbatim>\<open>core/folder_utils.py\<close> fills the series and the one of
  \<^verbatim>\<open>pipeline/processor.py\<close> the product type; with four tokens the first joins the two
  middle ones into the materials and the second joins the last two into the series.
\<close>

theorem parsers_disagree_counterexample:
  "parse_folder_name py_float (str ''ring_12'') = Inr ([], [], str ''ring'', Some 12) \<and>
   processor_parse_folder_name py_float (str ''ring_12'') =
     \<lparr> parsed_product_type = str ''ring'', materials_raw = [], parsed_series = [],
       parsed_price = Some 12 \<rparr> \<and>
   parse_folder_name py_float (str ''a-b-c-d_12'') =
     Inr (str ''a'', str ''b-c'', str ''d'', Some 12) \<and>
   processor_parse_folder_name py_float (str ''a-b-c-d_12'') =
     \<lparr> parsed_product_type = str ''a'', materials_raw = str ''b'', parsed_series = str ''c-d'',
       parsed_price = Some 12 \<rparr> \<and>
   str ''ring'' \<noteq> [] \<and> str ''b-c'' \<noteq> str ''b''"
  by (simp add: parse_folder_name_def split_left_part_def py_rsplit1_def
      processor_parse_folder_name_def processor_split_base_def py_rpartition_def
      py_split_max_2 str_def py_strip_def py_lstrip_def py_rstrip_def isspace_def py_float_def
      float_strip_def is_float_space_def is_digit_def digits_value_def)

text \<open>
  The condition on the price segment is needed: in \<^verbatim>\<open>a-b_\<close> followed by U+001F and
  \<^verbatim>\<open>5\<close>, \<^verbatim>\<open>strip()\<close> removes the separator and \<^verbatim>\<open>core/folder_utils.py\<close> reads the price
  5, while \<^verbatim>\<open>pipeline/processor.py\<close> passes the separator to the conversion, which
  rejects it.
\<close>

lemma price_segment_with_separator:
  "parse_folder_name py_float [97, 45, 98, 95, 31, 53] = Inr ([97], [98], [], Some 5)"
  "parsed_price (processor_parse_folder_name py_float [97, 45, 98, 95, 31, 53]) = None"
  by (simp_all add: parse_folder_name_def split_left_part_def py_rsplit1_def
      processor_parse_folder_name_def processor_split_base_def py_rpartition_def
      py_split_max_2 py_strip_def py_lstrip_def py_rstrip_def isspace_def py_float_def
      float_strip_def is_float_space_def is_digit_def digits_value_def)

section \<open>Properties of the state store and the loader\<close>

text \<open>
  C6 (a folder with a record in the state store, whatever its status, is not a new
  folder; the new folders are exactly the listed ones without a record). The loader's
  result is the listing filtered by "the folders mapping has no entry for the id": the
  content of the entry, its status included, is never read. Without a \<^verbatim>\<open>folders\<close> key,
  without a file or with an unreadable file nothing is recorded and the whole listing is
  new.
\<close>

theorem find_new_product_folders_skips_recorded:
  "find_new_product_folders (Document \<lparr> folders = Some m \<rparr> :: 'm backing_file) fs =
     Inr (filter (\<lambda>f. m (meta_id f) = None) fs) \<and>
   find_new_product_folders (Document \<lparr> folders = None \<rparr> :: 'm backing_file) fs = Inr fs \<and>
   find_new_product_folders (Missing :: 'm backing_file) fs = Inr fs \<and>
   find_new_product_folders (Unreadable e :: 'm backing_file) fs = Inr fs"
  by (simp add: find_new_product_folders_def StateStore_init_def load_def
      get_processed_folder_ids_def domIff)

text \<open>A folder recorded as failed is left out; the folder without record is new.\<close>

theorem find_new_product_folders_skips_recorded_witness:
  "find_new_product_folders
     (Document \<lparr> folders = Some [str ''id1'' \<mapsto>
        [str ''name'' \<mapsto> Str (str ''ring_5''), str ''status'' \<mapsto> Str (str ''failed''),
         str ''platforms'' \<mapsto> (Platforms Map.empty :: unit field)]] \<rparr>)
     [\<lparr> meta_id = str ''id1'', meta_name = str ''ring_5'', createdTime = [] \<rparr>,
      \<lparr> meta_id = str ''id2'', meta_name = str ''a-b-c_7'', createdTime = [] \<rparr>] =
     Inr [\<lparr> meta_id = str ''id2'', meta_name = str ''a-b-c_7'', createdTime = [] \<rparr>]"
  using find_new_product_folders_skips_recorded [of "[str ''id1'' \<mapsto>
        [str ''name'' \<mapsto> Str (str ''ring_5''), str ''status'' \<mapsto> Str (str ''failed''),
         str ''platforms'' \<mapsto> (Platforms Map.empty :: unit field)]]"
     "[\<lparr> meta_id = str ''id1'', meta_name = str ''ring_5'', createdTime = [] \<rparr>,
      \<lparr> meta_id = str ''id2'', meta_name = str ''a-b-c_7'', createdTime = [] \<rparr>]" JSONDecodeError]
  by (simp add: str_def)

text \<open>
  C7 (\<^verbatim>\<open>mark_folder_status\<close> overwrites the whole record of its folder id and leaves every
  other record as it was). After the call the record of the id has exactly the keys
  \<^verbatim>\<open>name\<close>, \<^verbatim>\<open>status\<close> and \<^verbatim>\<open>platforms\<close>, with the arguments as values and the empty
  mapping when no platforms are given; nothing of the earlier record is kept. The record
  of every other id is unchanged, the id is now a processed one, and the file holds the
  new state.
\<close>

theorem mark_folder_status_overwrites:
  "get_folder_record (mark_folder_status s fid nm st pl) fid =
     [str ''name'' \<mapsto> Str nm, str ''status'' \<mapsto> Str st,
      str ''platforms'' \<mapsto> Platforms (case pl of None \<Rightarrow> Map.empty | Some p \<Rightarrow> p)] \<and>
   (\<forall>other. other \<noteq> fid \<longrightarrow>
      get_folder_record (mark_folder_status s fid nm st pl) other = get_folder_record s other) \<and>
   get_processed_folder_ids (mark_folder_status s fid nm st pl) =
     insert fid (get_processed_folder_ids s) \<and>
   store_file (mark_folder_status s fid nm st pl) =
     Document (store_state (mark_folder_status s fid nm st pl))"
  by (auto simp: mark_folder_status_def get_folder_record_def get_processed_folder_ids_def
      save_def Let_def split: option.splits)

text \<open>
  Marking a folder as failed without platforms loses the platforms it had; the other
  folder keeps its record. The store is the one the constructor builds from the document.
\<close>

theorem mark_folder_status_overwrites_witness:
  "StateStore_init (Document \<lparr> folders = Some
       [str ''id1'' \<mapsto> [str ''name'' \<mapsto> Str (str ''ring_5''),
                          str ''status'' \<mapsto> Str (str ''success''),
                          str ''platforms'' \<mapsto> Platforms [str ''etsy'' \<mapsto> str ''draft'']],
        str ''id2'' \<mapsto> [str ''name'' \<mapsto> Str (str ''a-b-c_7''),
                          str ''status'' \<mapsto> Str (str ''pending''),
                          str ''platforms'' \<mapsto> Platforms Map.empty]] \<rparr>) =
     Inr \<lparr> store_file = Document \<lparr> folders = Some
       [str ''id1'' \<mapsto> [str ''name'' \<mapsto> Str (str ''ring_5''),
                          str ''status'' \<mapsto> Str (str ''success''),
                          str ''platforms'' \<mapsto> Platforms [str ''etsy'' \<mapsto> str ''draft'']],
        str ''id2'' \<mapsto> [str ''name'' \<mapsto> Str (str ''a-b-c_7''),
                          str ''status'' \<mapsto> Str (str ''pending''),
                          str ''platforms'' \<mapsto> Platforms Map.empty]] \<rparr>,
       store_state = \<lparr> folders = Some
       [str ''id1'' \<mapsto> [str ''name'' \<mapsto> Str (str ''ring_5''),
                          str ''status'' \<mapsto> Str (str ''success''),
                          str ''platforms'' \<mapsto> Platforms [str ''etsy'' \<mapsto> str ''draft'']],
        str ''id2'' \<mapsto> [str ''name'' \<mapsto> Str (str ''a-b-c_7''),
                          str ''status'' \<mapsto> Str (str ''pending''),
                          str ''platforms'' \<mapsto> Platforms Map.empty]] \<rparr> \<rparr> \<and>
   get_folder_record
     (mark_folder_status
        \<lparr> store_file = Document \<lparr> folders = Some
       [str ''id1'' \<mapsto> [str ''name'' \<mapsto> Str (str ''ring_5''),
                          str ''status'' \<mapsto> Str (str ''success''),
                          str ''platforms'' \<mapsto> Platforms [str ''etsy'' \<mapsto> str ''draft'']],
        str ''id2'' \<mapsto> [str ''name'' \<mapsto> Str (str ''a-b-c_7''),
                          str ''status'' \<mapsto> Str (str ''pending''),
                          str ''platforms'' \<mapsto> Platforms Map.empty]] \<rparr>,
       store_state = \<lparr> folders = Some
       [str ''id1'' \<mapsto> [str ''name'' \<mapsto> Str (str ''ring_5''),
                          str ''status'' \<mapsto> Str (str ''success''),
                          str ''platforms'' \<mapsto> Platforms [str ''etsy'' \<mapsto> str ''draft'']],
        str ''id2'' \<mapsto> [str ''name'' \<mapsto> Str (str ''a-b-c_7''),
                          str ''status'' \<mapsto> Str (str ''pending''),
                          str ''platforms'' \<mapsto> Platforms Map.empty]] \<rparr> \<rparr>
        (str ''id1'') (str ''ring_5'') (str ''failed'') None) (str ''id1'') =
     [str ''name'' \<mapsto> Str (str ''ring_5''), str ''status'' \<mapsto> Str (str ''failed''),
      str ''platforms'' \<mapsto> Platforms Map.empty] \<and>
   get_folder_record
     (mark_folder_status
        \<lparr> store_file = Document \<lparr> folders = Some
       [str ''id1'' \<mapsto> [str ''name'' \<mapsto> Str (str ''ring_5''),
                          str ''status'' \<mapsto> Str (str ''success''),
                          str ''platforms'' \<mapsto> Platforms [str ''etsy'' \<mapsto> str ''draft'']],
        str ''id2'' \<mapsto> [str ''name'' \<mapsto> Str (str ''a-b-c_7''),
                          str ''status'' \<mapsto> Str (str ''pending''),
                          str ''platforms'' \<mapsto> Platforms Map.empty]] \<rparr>,
       store_state = \<lparr> folders = Some
       [str ''id1'' \<mapsto> [str ''name'' \<mapsto> Str (str ''ring_5''),
                          str ''status'' \<mapsto> Str (str ''success''),
                          str ''platforms'' \<mapsto> Platforms [str ''etsy'' \<mapsto> str ''draft'']],
        str ''id2'' \<mapsto> [str ''name'' \<mapsto> Str (str ''a-b-c_7''),
                          str ''status'' \<mapsto> Str (str ''pending''),
                          str ''platforms'' \<mapsto> Platforms Map.empty]] \<rparr> \<rparr>
        (str ''id1'') (str ''ring_5'') (str ''failed'') None) (str ''id2'') =
     [str ''name'' \<mapsto> Str (str ''a-b-c_7''), str ''status'' \<mapsto> Str (str ''pending''),
      str ''platforms'' \<mapsto> Platforms Map.empty]"
  using mark_folder_status_overwrites [of
        "\<lparr> store_file = Document \<lparr> folders = Some
       [str ''id1'' \<mapsto> [str ''name'' \<mapsto> Str (str ''ring_5''),
                          str ''status'' \<mapsto> Str (str ''success''),
                          str ''platforms'' \<mapsto> Platforms [str ''etsy'' \<mapsto> str ''draft'']],
        str ''id2'' \<mapsto> [str ''name'' \<mapsto> Str (str ''a-b-c_7''),
                          str ''status'' \<mapsto> Str (str ''pending''),
                          str ''platforms'' \<mapsto> Platforms Map.empty]] \<rparr>,
       store_state = \<lparr> folders = Some
       [str ''id1'' \<mapsto> [str ''name'' \<mapsto> Str (str ''ring_5''),
                          str ''status'' \<mapsto> Str (str ''success''),
                          str ''platforms'' \<mapsto> Platforms [str ''etsy'' \<mapsto> str ''draft'']],
        str ''id2'' \<mapsto> [str ''name'' \<mapsto> Str (str ''a-b-c_7''),
                          str ''status'' \<mapsto> Str (str ''pending''),
                          str ''platforms'' \<mapsto> Platforms Map.empty]] \<rparr> \<rparr>"
        "str ''id1''" "str ''ring_5''" "str ''failed''" None]
  by (simp add: StateStore_init_def load_def get_folder_record_def str_def)

text \<open>
  When \<^verbatim>\<open>self.filepath.exists()\<close> has answered \<^verbatim>\<open>True\<close>, whatever exception \<open>e\<close> the
  reading or the parsing raises, \<^verbatim>\<open>StateStore(...)\<close> returns a store: its state is
  \<^verbatim>\<open>{"folders": {}}\<close>, it has no processed id and its record is empty for every id.
\<close>

lemma unreadable_state_file_reinitializes:
  "\<exists>s. StateStore_init (Unreadable e) = Inr s \<and>
       store_state s = \<lparr> folders = Some Map.empty \<rparr> \<and>
       get_processed_folder_ids s = {} \<and>
       (\<forall>fid. get_folder_record s fid = Map.empty)"
  by (simp add: StateStore_init_def load_def get_processed_folder_ids_def get_folder_record_def)

text \<open>
  C8 (when the state file exists but cannot be read or parsed, building the store does
  not fail: it starts from an empty folders mapping). The \<^verbatim>\<open>try\<close> block of \<^verbatim>\<open>_load\<close> does
  that for every exception of \<^verbatim>\<open>open\<close> and \<^verbatim>\<open>json.load\<close>, but the existence check stands
  before it: for a document that exists where the check itself raises (a file in a
  directory that may not be searched), the \<^verbatim>\<open>OSError\<close> leaves the constructor.
\<close>

theorem inaccessible_state_file_raises:
  "StateStore_init (Inaccessible :: 'm backing_file) = Inl OSError"
  by (simp add: StateStore_init_def load_def)

section \<open>Properties of the normalizer\<close>

subsection \<open>Tags\<close>

text \<open>The lowercasing of ASCII strings has the two properties asked of \<open>lw\<close> below.\<close>

lemma isspace_ascii_lower_cp: "isspace (ascii_lower_cp c) = isspace c"
  by (auto simp: isspace_def ascii_lower_cp_def)

lemma ascii_lower_cp_idem: "ascii_lower_cp (ascii_lower_cp c) = ascii_lower_cp c"
  by (simp add: ascii_lower_cp_def)

lemma ascii_lower_idem: "ascii_lower (ascii_lower x) = ascii_lower x"
  by (simp add: ascii_lower_def ascii_lower_cp_idem)

lemma dropWhile_isspace_ascii_lower:
  "dropWhile isspace (map ascii_lower_cp x) = map ascii_lower_cp (dropWhile isspace x)"
  by (induction x) (auto simp: isspace_ascii_lower_cp)

lemma py_strip_ascii_lower: "py_strip (ascii_lower x) = ascii_lower (py_strip x)"
  by (simp add: py_strip_def py_lstrip_def py_rstrip_def ascii_lower_def
      dropWhile_isspace_ascii_lower rev_map)

lemma ascii_lower_trimmed: "py_strip (ascii_lower (py_strip x)) = ascii_lower (py_strip x)"
  by (simp add: py_strip_ascii_lower py_strip_idem)

text \<open>Keeping first occurrences.\<close>

lemma remdups_snoc: "remdups (zs @ [x]) = filter (\<lambda>y. y \<noteq> x) (remdups zs) @ [x]"
  by (induction zs) auto

lemma first_seen_Cons:
  "rev (remdups (rev (x # ys))) = x # filter (\<lambda>y. y \<noteq> x) (rev (remdups (rev ys)))"
  by (simp add: remdups_snoc rev_filter)

lemma clean_tags_loop_eq:
  assumes "seen = set cleaned" and "int (length cleaned) < mc"
  shows "clean_tags_loop lw mc tgs cleaned seen =
    take (nat mc) (cleaned @ filter (\<lambda>t. t \<notin> set cleaned)
      (rev (remdups (rev (filter (\<lambda>t. t \<noteq> []) (map (\<lambda>x. lw (py_strip x)) tgs))))))"
  using assms
proof (induction tgs arbitrary: cleaned seen)
  case Nil
  then show ?case by simp
next
  case (Cons tag tgs)
  let ?t = "lw (py_strip tag)"
  let ?F = "rev (remdups (rev (filter (\<lambda>t. t \<noteq> []) (map (\<lambda>x. lw (py_strip x)) tgs))))"
  show ?case
  proof (cases "?t \<noteq> [] \<and> ?t \<notin> seen")
    case False
    have "filter (\<lambda>t. t \<notin> set cleaned)
        (rev (remdups (rev (filter (\<lambda>t. t \<noteq> []) (map (\<lambda>x. lw (py_strip x)) (tag # tgs)))))) =
        filter (\<lambda>t. t \<notin> set cleaned) ?F"
    proof (cases "?t = []")
      case True
      then show ?thesis by simp
    next
      case nonempty: False
      with False Cons.prems have "?t \<in> set cleaned" by simp
      then have "filter (\<lambda>t. t \<notin> set cleaned) (filter (\<lambda>y. y \<noteq> ?t) ?F) =
          filter (\<lambda>t. t \<notin> set cleaned) ?F"
        by (auto intro!: filter_cong)
      with nonempty \<open>?t \<in> set cleaned\<close> show ?thesis
        by (simp add: remdups_snoc rev_filter)
    qed
    moreover have "clean_tags_loop lw mc (tag # tgs) cleaned seen =
        clean_tags_loop lw mc tgs cleaned seen"
      using False by (auto simp: Let_def)
    ultimately show ?thesis using Cons.IH [OF Cons.prems] by simp
  next
    case True
    then have new: "?t \<noteq> []" "?t \<notin> set cleaned" using Cons.prems by auto
    have rhs: "filter (\<lambda>t. t \<notin> set cleaned)
        (rev (remdups (rev (filter (\<lambda>t. t \<noteq> []) (map (\<lambda>x. lw (py_strip x)) (tag # tgs)))))) =
        ?t # filter (\<lambda>t. t \<notin> set (cleaned @ [?t])) ?F"
      using new by (auto simp: remdups_snoc rev_filter intro!: filter_cong)
    show ?thesis
    proof (cases "int (length (cleaned @ [?t])) \<ge> mc")
      case full: True
      with Cons.prems have "nat mc = Suc (length cleaned)" by simp
      moreover have "clean_tags_loop lw mc (tag # tgs) cleaned seen = cleaned @ [?t]"
        using True full by (simp add: Let_def)
      ultimately show ?thesis unfolding rhs by simp
    next
      case more: False
      then have lt: "int (length (cleaned @ [?t])) < mc" by simp
      have st: "insert ?t seen = set (cleaned @ [?t])" using Cons.prems by simp
      have "clean_tags_loop lw mc (tag # tgs) cleaned seen =
          clean_tags_loop lw mc tgs (cleaned @ [?t]) (insert ?t seen)"
        using True more by (simp add: Let_def)
      then show ?thesis unfolding rhs using Cons.IH [OF st lt] by simp
    qed
  qed
qed

lemma clean_tags_13:
  "clean_tags lw xs 13 =
     take 13 (rev (remdups (rev (filter (\<lambda>t. t \<noteq> []) (map (\<lambda>x. lw (py_strip x)) xs)))))"
proof (cases "xs = []")
  case True
  then show ?thesis by (simp add: clean_tags_def)
next
  case False
  then show ?thesis
    using clean_tags_loop_eq [of "{}" "[]" 13 lw xs] by (simp add: clean_tags_def)
qed

text \<open>
  C4 (\<^verbatim>\<open>clean_tags\<close> is idempotent; at most 13 entries, each non-empty, trimmed and
  lowercase, no duplicates, in order of first occurrence). \<open>lw\<close> is \<^verbatim>\<open>str.lower\<close>, of which
  two facts are used: lowercasing a second time changes nothing, and the lowercased form
  of a trimmed string is trimmed (no cased character is white space or becomes white
  space). Both hold for every Python string. With the default limit 13 the result is the
  list of the trimmed and lowercased tags without the empty ones, each kept at its first
  occurrence (reversing, \<open>remdups\<close>, which keeps last occurrences, and reversing again),
  cut after 13 entries; "lowercase" says that lowercasing the entry changes nothing.
\<close>

theorem clean_tags_idempotent_bounded:
  assumes idem: "\<forall>s. lw (lw s) = lw s"
    and trim: "\<forall>s. py_strip (lw (py_strip s)) = lw (py_strip s)"
  shows "clean_tags lw (clean_tags lw xs 13) 13 = clean_tags lw xs 13 \<and>
   length (clean_tags lw xs 13) \<le> 13 \<and>
   (\<forall>t\<in>set (clean_tags lw xs 13). t \<noteq> [] \<and> py_strip t = t \<and> lw t = t) \<and>
   distinct (clean_tags lw xs 13) \<and>
   clean_tags lw xs 13 =
     take 13 (rev (remdups (rev (filter (\<lambda>t. t \<noteq> []) (map (\<lambda>x. lw (py_strip x)) xs)))))"
proof -
  let ?out = "clean_tags lw xs 13"
  let ?valid = "filter (\<lambda>t. t \<noteq> []) (map (\<lambda>x. lw (py_strip x)) xs)"
  have out: "?out = take 13 (rev (remdups (rev ?valid)))" by (rule clean_tags_13)
  have len: "length ?out \<le> 13" unfolding out by simp
  have dist: "distinct ?out" unfolding out by simp
  have elems: "t \<noteq> [] \<and> py_strip t = t \<and> lw t = t" if "t \<in> set ?out" for t
  proof -
    from that have "t \<in> set ?valid" unfolding out by (auto dest: in_set_takeD)
    then obtain x where "t = lw (py_strip x)" "t \<noteq> []" by auto
    then show ?thesis using idem trim by simp
  qed
  have fixed: "map (\<lambda>x. lw (py_strip x)) ?out = ?out"
    using elems by (intro map_idI) simp
  have keep: "filter (\<lambda>t. t \<noteq> []) ?out = ?out"
    using elems by (intro filter_True) simp
  have "clean_tags lw ?out 13 = take 13 (rev (remdups (rev ?out)))"
    unfolding clean_tags_13 [of lw ?out] fixed keep ..
  also have "\<dots> = ?out" using dist len by (simp add: distinct_remdups_id)
  finally have idem_out: "clean_tags lw ?out 13 = ?out" .
  from idem_out len elems dist out show ?thesis by blast
qed

text \<open>Four tags, one a repetition and one empty, and the result cleaned again.\<close>

theorem clean_tags_idempotent_bounded_witness:
  "clean_tags ascii_lower [str '' Boho '', str ''boho'', str '''', str ''Fern''] 13 =
     [str ''boho'', str ''fern''] \<and>
   clean_tags ascii_lower
     (clean_tags ascii_lower [str '' Boho '', str ''boho'', str '''', str ''Fern''] 13) 13 =
     [str ''boho'', str ''fern'']"
proof -
  have idem: "\<forall>s. ascii_lower (ascii_lower s) = ascii_lower s"
    by (simp add: ascii_lower_idem)
  have trim: "\<forall>s. py_strip (ascii_lower (py_strip s)) = ascii_lower (py_strip s)"
    by (simp add: ascii_lower_trimmed)
  have out: "clean_tags ascii_lower [str '' Boho '', str ''boho'', str '''', str ''Fern''] 13 =
     [str ''boho'', str ''fern'']"
    by (simp add: clean_tags_def str_def py_strip_def py_lstrip_def py_rstrip_def isspace_def
        ascii_lower_def ascii_lower_cp_def)
  have again: "clean_tags ascii_lower
      (clean_tags ascii_lower [str '' Boho '', str ''boho'', str '''', str ''Fern''] 13) 13 =
      clean_tags ascii_lower [str '' Boho '', str ''boho'', str '''', str ''Fern''] 13"
    by (rule clean_tags_idempotent_bounded [OF idem trim, THEN conjunct1])
  from again out show ?thesis by simp
qed

subsection \<open>Materials\<close>

lemma add_ai_materials_eq:
  "add_ai_materials ms A = A \<union> (\<lambda>m. translate_material (py_strip m)) ` {m \<in> set ms. m \<noteq> []}"
  by (induction ms arbitrary: A) auto

lemma add_folder_materials_eq:
  "add_folder_materials ms A =
     A \<union> (\<lambda>m. translate_material (py_strip m)) ` {m \<in> set ms. py_strip m \<noteq> []}"
  by (induction ms arbitrary: A) auto

lemma finite_all_materials:
  "finite A \<Longrightarrow> finite (add_ai_materials ms A)" "finite A \<Longrightarrow> finite (add_folder_materials ms A)"
  by (simp_all add: add_ai_materials_eq add_folder_materials_eq)

text \<open>
  C3 (the result of \<^verbatim>\<open>clean_materials\<close> is sorted ascending and has no two entries that
  are equal without regard to case). The result is strictly ascending in the order of
  Python strings, so no two entries are the same string, and it holds the translation of
  every non-empty AI material. Case is never folded: entries that differ in case only
  are different strings and are both kept.
\<close>

theorem clean_materials_sorted_distinct:
  "sorted_wrt (<) (clean_materials ms ctx) \<and> distinct (clean_materials ms ctx) \<and>
   (\<forall>m\<in>set ms. m \<noteq> [] \<longrightarrow> translate_material (py_strip m) \<in> set (clean_materials ms ctx))"
  by (auto simp: clean_materials_def Let_def finite_all_materials add_ai_materials_eq
      add_folder_materials_eq)

text \<open>
  A material in Chinese and its translation give one entry; the folder materials are
  split and translated the same way.
\<close>

theorem clean_materials_sorted_distinct_witness:
  "clean_materials [[0x677E, 0x679C], str ''pine cone'', str '' gold'']
     \<lparr> folder_id = str ''f1'', folder_name = str ''ring-fern_5'',
       created_time = [], product_type = str ''ring'', raw_materials_str = [0x91D1, 45, 102, 101, 114, 110],
       series = [], price_from_name = Some (Finite 5), image_files = [], note_file = None,
       other_files = [], note_text = [] \<rparr> = [str ''fern'', str ''gold'', str ''pine cone'']"
  using clean_materials_sorted_distinct [of "[[0x677E, 0x679C], str ''pine cone'', str '' gold'']"
     "\<lparr> folder_id = str ''f1'', folder_name = str ''ring-fern_5'',
       created_time = [], product_type = str ''ring'', raw_materials_str = [0x91D1, 45, 102, 101, 114, 110],
       series = [], price_from_name = Some (Finite 5), image_files = [], note_file = None,
       other_files = [], note_text = [] \<rparr>"]
  by (simp add: clean_materials_def re_split_materials_def is_material_sep_def translate_material_def
      MATERIALS_MAPPING_def str_def py_strip_def py_lstrip_def py_rstrip_def isspace_def)

text \<open>\<^verbatim>\<open>Gold\<close> and \<^verbatim>\<open>gold\<close> are both in the result, and equal once lowercased.\<close>

theorem case_insensitive_duplicates_counterexample:
  "clean_materials [str ''Gold'', str ''gold'']
     \<lparr> folder_id = str ''f1'', folder_name = str ''ring'',
       created_time = [], product_type = [], raw_materials_str = [],
       series = str ''ring'', price_from_name = None, image_files = [], note_file = None,
       other_files = [], note_text = [] \<rparr> = [str ''Gold'', str ''gold''] \<and>
   ascii_lower (translate_material (str ''Gold'')) =
     ascii_lower (translate_material (str ''gold'')) \<and>
   str ''Gold'' \<noteq> str ''gold''"
  by (simp add: clean_materials_def translate_material_def
      MATERIALS_MAPPING_def str_def py_strip_def py_lstrip_def py_rstrip_def isspace_def
      ascii_lower_def ascii_lower_cp_def)

subsection \<open>Price\<close>


text \<open>
  The conversion of integers at some values: a small one is exact, \<open>2 ^ 70 + 1\<close> and
  \<open>2 ^ 53 + 3\<close> are rounded to 53 bits, \<open>10 ^ 400\<close> is beyond the range.
\<close>

lemma bit_length_unfold: "bit_length n = (if n = 0 then 0 else Suc (bit_length (n div 2)))"
  by (cases n) simp_all

lemma bit_length_numeral:
  "bit_length (numeral (Num.Bit0 k)) = Suc (bit_length (numeral k))"
  "bit_length (numeral (Num.Bit1 k)) = Suc (bit_length (numeral k))"
  "bit_length (numeral Num.One) = 1"
  by (subst bit_length_unfold, simp)+

lemma int_to_float_examples:
  "int_to_float 25 = Inr (Finite 25)"
  "int_to_float (2 ^ 70 + 1) = Inr (Finite (2 ^ 70))"
  "int_to_float (2 ^ 53 + 3) = Inr (Finite (2 ^ 53 + 4))"
  "int_to_float (10 ^ 400) = Inl OverflowError"
  by (simp_all add: int_to_float_def bit_length_numeral)





end
